theory Spec2Isabelle
  imports Complex_Main
begin

section \<open>Values and exceptions\<close>

text \<open>
  Replies of the endpoint are Python dicts that the transport serialises as JSON.
  A dict is an association list in insertion order; Python's \<open>None\<close> is \<open>JNull\<close>.
\<close>

datatype json =
    JNull
  | JBool bool
  | JInt int
  | JStr string
  | JList "json list"
  | JObj "(string \<times> json) list"

text \<open>
  A raised exception, as \<open>traceback.format_exc().splitlines()\<close> shows it: the frame
  lines and, last, the line \<open>Type: message\<close>.
\<close>

datatype exn = Exn (exc_frames: "string list") (exc_summary: string)

definition format_exc_lines :: "exn \<Rightarrow> string list" where
  "format_exc_lines e = exc_frames e @ [exc_summary e]"

definition raised :: "string \<Rightarrow> exn" where
  "raised summary = Exn [''Traceback (most recent call last):''] summary"

definition json_traceback :: "exn \<Rightarrow> json" where
  "json_traceback e =
     (let exception_data = format_exc_lines e
      in JObj [(''error'', JStr (last exception_data)),
               (''traceback'', JList (map JStr exception_data))])"

text \<open>
  An argument of a command is a byte string or \<open>None\<close>; \<open>str()\<close> of it is the string
  itself, or the text \<open>None\<close>. \<open>not x\<close> holds of \<open>None\<close> and of the empty string.
\<close>

definition str_arg :: "string option \<Rightarrow> string" where
  "str_arg x = (case x of None \<Rightarrow> ''None'' | Some s \<Rightarrow> s)"

definition falsy :: "string option \<Rightarrow> bool" where
  "falsy x = (case x of None \<Rightarrow> True | Some s \<Rightarrow> s = [])"

definition json_of_str :: "string option \<Rightarrow> json" where
  "json_of_str x = (case x of None \<Rightarrow> JNull | Some s \<Rightarrow> JStr s)"

definition json_of_record :: "json option \<Rightarrow> json" where
  "json_of_record x = (case x of None \<Rightarrow> JNull | Some r \<Rightarrow> r)"

section \<open>Configuration values\<close>

datatype optval = OptNone | OptBool bool | OptInt int | OptStr string

type_synonym opts = "(string \<times> optval) list"

definition digit_char :: "nat \<Rightarrow> char" where
  "digit_char d = char_of (48 + d)"

function str_nat :: "nat \<Rightarrow> string" where
  "str_nat n = (if n < 10 then [digit_char n] else str_nat (n div 10) @ [digit_char (n mod 10)])"
  by pat_completeness auto
termination
  by (relation "measure id") auto

definition str_int :: "int \<Rightarrow> string" where
  "str_int i = (if i < 0 then CHR ''-'' # str_nat (nat (- i)) else str_nat (nat i))"

definition str_opt :: "optval \<Rightarrow> string" where
  "str_opt v =
     (case v of
        OptNone \<Rightarrow> ''None''
      | OptBool b \<Rightarrow> (if b then ''True'' else ''False'')
      | OptInt i \<Rightarrow> str_int i
      | OptStr s \<Rightarrow> s)"

section \<open>The collaborators\<close>

text \<open>
  Modelled from the spec: the state engine (\<open>lib.nameset\<close>, behind \<open>get_db_state\<close>) is
  not part of this module. It is the committed snapshot: the name table, the current
  consensus hash (absent until the engine has produced one) and the last
  fully-committed block height. The three methods the endpoint calls only read it.
\<close>

record engine =
  db_names :: "string \<rightharpoonup> json"
  db_consensus :: "string option"
  db_lastblock :: int

definition get_name :: "engine \<Rightarrow> string option \<Rightarrow> json option" where
  "get_name db name = (case name of None \<Rightarrow> None | Some n \<Rightarrow> db_names db n)"

definition is_name_registered :: "engine \<Rightarrow> string option \<Rightarrow> bool" where
  "is_name_registered db name = (case get_name db name of None \<Rightarrow> False | Some r \<Rightarrow> True)"

definition get_current_consensus :: "engine \<Rightarrow> string option" where
  "get_current_consensus db = db_consensus db"

text \<open>The bitcoind client: all the endpoint asks of it is \<open>getinfo()\<close>.\<close>

datatype bitcoind_client = BitcoindRPC (getinfo: "exn + (string \<times> json) list")

text \<open>The UTXO provider's client, as the constructor calls received it.\<close>

datatype client =
    ChainComClient optval optval
  | BitcoindClient optval optval optval string optval

text \<open>
  A call of one of the operation constructors of \<open>lib\<close>, with its arguments in the
  order of the call; every call also passes the client and \<open>testset=True\<close>.
\<close>

datatype op_call =
    Preorder_name string string string
  | Register_name string string
  | Update_name string string string string
  | Transfer_name string string bool string string
  | Revoke_name string string
  | Namespace_preorder string string string
  | Namespace_reveal string int int rat string
  | Namespace_ready string string

text \<open>
  What the module is given: the functions of \<open>virtualchain\<close>, \<open>pybitcoin\<close> and \<open>lib\<close>
  it calls, each returning its value or the exception it raises, and the module
  global \<open>blockchain_opts\<close>, which this module reads and never assigns
  (\<open>None\<close>: the name is not defined). The two client classes answer with the
  exception they raise, if any; their first argument is the number of client
  constructions attempted before, so that a provider can fail at one attempt and
  answer at the next (a transient failure).
\<close>

record env =
  connect_bitcoind :: "opts option \<Rightarrow> exn + bitcoind_client"
  configure :: "exn + (opts \<times> opts)"
  blockchain_opts :: "opts option"
  new_ChainComClient :: "nat \<Rightarrow> optval \<Rightarrow> optval \<Rightarrow> exn option"
  new_BitcoindClient ::
    "nat \<Rightarrow> optval \<Rightarrow> optval \<Rightarrow> optval \<Rightarrow> string \<Rightarrow> optval \<Rightarrow> exn option"
  construct :: "client \<Rightarrow> op_call \<Rightarrow> exn + json"

text \<open>
  The module's globals, the engine's committed state as \<open>get_db_state()\<close> gives it
  (or the exception it raises), the number of client constructions attempted and the
  constructor calls made so far.
\<close>

record state =
  bitcoind :: "bitcoind_client option"
  bitcoin_opts :: "opts option"
  chaincom_opts :: "opts option"
  blockchain_client :: "client option"
  db_state :: "exn + engine"
  attempts :: nat
  constructed :: "(client \<times> op_call) list"

section \<open>The module's helpers\<close>

definition get_bitcoind :: "env \<Rightarrow> state \<Rightarrow> bitcoind_client option \<times> state" where
  "get_bitcoind ev s =
     (case bitcoind s of
        Some b \<Rightarrow> (Some b, s)
      | None \<Rightarrow>
          (case connect_bitcoind ev (bitcoin_opts s) of
             Inr b \<Rightarrow> (Some b, s\<lparr>bitcoind := Some b\<rparr>)
           | Inl e \<Rightarrow> (None, s)))"

definition get_state_engine :: "state \<Rightarrow> exn + engine" where
  "get_state_engine s = db_state s"

definition getitem :: "opts \<Rightarrow> string \<Rightarrow> exn + optval" where
  "getitem d k =
     (case map_of d k of
        None \<Rightarrow> Inl (raised (''KeyError: '' @ k))
      | Some v \<Rightarrow> Inr v)"

text \<open>The fallback of \<open>get_utxo_provider_client\<close>: the body of its inner \<open>try\<close>.\<close>

definition bitcoind_utxo_client :: "env \<Rightarrow> state \<Rightarrow> (exn + client) \<times> state" where
  "bitcoind_utxo_client ev s =
     (case blockchain_opts ev of
        None \<Rightarrow> (Inl (raised ''NameError: global name blockchain_opts is not defined''), s)
      | Some bo \<Rightarrow>
          (case getitem bo ''bitcoind_user'' of Inl e \<Rightarrow> (Inl e, s) | Inr user \<Rightarrow>
          (case getitem bo ''bitcoind_passwd'' of Inl e \<Rightarrow> (Inl e, s) | Inr passwd \<Rightarrow>
          (case getitem bo ''bitcoind_server'' of Inl e \<Rightarrow> (Inl e, s) | Inr server \<Rightarrow>
          (case getitem bo ''bitcoind_port'' of Inl e \<Rightarrow> (Inl e, s) | Inr port \<Rightarrow>
             (let use_https =
                    (case map_of bo ''bitcoind_use_https'' of None \<Rightarrow> OptBool False | Some v \<Rightarrow> v);
                  s1 = s\<lparr>attempts := Suc (attempts s)\<rparr>
              in case new_BitcoindClient ev (attempts s) user passwd server (str_opt port) use_https of
                   Some e \<Rightarrow> (Inl e, s1)
                 | None \<Rightarrow>
                     (Inr (BitcoindClient user passwd server (str_opt port) use_https), s1)))))))"

definition get_utxo_provider_client :: "env \<Rightarrow> state \<Rightarrow> (exn + client option) \<times> state" where
  "get_utxo_provider_client ev s =
     (case configure ev of
        Inl e \<Rightarrow> (Inl e, s)
      | Inr (bitcoin_opts', chaincom_opts') \<Rightarrow>
          (let s1 = s\<lparr>chaincom_opts := Some chaincom_opts'\<rparr> in
           case getitem chaincom_opts' ''api_key_id'' of Inl e \<Rightarrow> (Inl e, s1) | Inr chaincom_id \<Rightarrow>
          (case getitem chaincom_opts' ''api_key_secret'' of Inl e \<Rightarrow> (Inl e, s1) | Inr chaincom_secret \<Rightarrow>
          (let s2 = s1\<lparr>attempts := Suc (attempts s1)\<rparr> in
           case new_ChainComClient ev (attempts s1) chaincom_id chaincom_secret of
             None \<Rightarrow>
               (Inr (Some (ChainComClient chaincom_id chaincom_secret)),
                s2\<lparr>blockchain_client := Some (ChainComClient chaincom_id chaincom_secret)\<rparr>)
           | Some e \<Rightarrow>
               (case bitcoind_utxo_client ev s2 of
                  (Inr c, s3) \<Rightarrow> (Inr (Some c), s3\<lparr>blockchain_client := Some c\<rparr>)
                | (Inl e', s3) \<Rightarrow> (Inr None, s3))))))"

section \<open>The endpoint\<close>

definition error_reply :: "string \<Rightarrow> json" where
  "error_reply msg = JObj [(''error'', JStr msg)]"

definition jsonrpc_ping :: "env \<Rightarrow> state \<Rightarrow> (exn + json) \<times> state" where
  "jsonrpc_ping ev s = (Inr (JObj [(''status'', JStr ''alive'')]), s)"

definition jsonrpc_lookup :: "env \<Rightarrow> state \<Rightarrow> string option \<Rightarrow> (exn + json) \<times> state" where
  "jsonrpc_lookup ev s name =
     (case get_state_engine s of
        Inl e \<Rightarrow> (Inl e, s)
      | Inr blockstore_state_engine \<Rightarrow>
          (let name_record = get_name blockstore_state_engine name
           in if name = None then (Inr (error_reply ''Not found.''), s)
              else (Inr (json_of_record name_record), s)))"

definition jsonrpc_getinfo :: "env \<Rightarrow> state \<Rightarrow> (exn + json) \<times> state" where
  "jsonrpc_getinfo ev s =
     (case get_bitcoind ev s of
        (None, s1) \<Rightarrow>
          (Inl (raised ''AttributeError: NoneType object has no attribute getinfo''), s1)
      | (Some b, s1) \<Rightarrow>
          (case getinfo b of
             Inl e \<Rightarrow> (Inl e, s1)
           | Inr info \<Rightarrow>
               (case map_of info ''blocks'' of
                  None \<Rightarrow> (Inl (raised ''KeyError: blocks''), s1)
                | Some blocks \<Rightarrow>
                    (case get_state_engine s1 of
                       Inl e \<Rightarrow> (Inl e, s1)
                     | Inr db \<Rightarrow>
                         (Inr (JObj [(''blocks'', blocks),
                                     (''consensus'', json_of_str (get_current_consensus db))]),
                          s1)))))"

text \<open>
  The \<open>try\<close> block of a command: the constructor is called, the call is recorded, and
  an exception it raises comes back as \<open>json_traceback()\<close>.
\<close>

definition try_construct :: "env \<Rightarrow> state \<Rightarrow> client \<Rightarrow> op_call \<Rightarrow> (exn + json) \<times> state" where
  "try_construct ev s c call =
     (let s1 = s\<lparr>constructed := constructed s @ [(c, call)]\<rparr>
      in case construct ev c call of
           Inl e \<Rightarrow> (Inr (json_traceback e), s1)
         | Inr resp \<Rightarrow> (Inr resp, s1))"

definition no_provider :: json where
  "no_provider = error_reply ''Failed to connect to blockchain UTXO provider''"

definition jsonrpc_preorder ::
  "env \<Rightarrow> state \<Rightarrow> string option \<Rightarrow> string option \<Rightarrow> (exn + json) \<times> state" where
  "jsonrpc_preorder ev s name privatekey =
     (case get_utxo_provider_client ev s of
        (Inl e, s1) \<Rightarrow> (Inl e, s1)
      | (Inr None, s1) \<Rightarrow> (Inr no_provider, s1)
      | (Inr (Some blockchain_client_inst), s1) \<Rightarrow>
          (case get_state_engine s1 of
             Inl e \<Rightarrow> (Inl e, s1)
           | Inr db \<Rightarrow>
               (let consensus_hash = get_current_consensus db
                in if falsy consensus_hash then (Inr (error_reply ''Nameset snapshot not found.''), s1)
                   else if is_name_registered db name
                   then (Inr (error_reply ''Name already registered''), s1)
                   else try_construct ev s1 blockchain_client_inst
                          (Preorder_name (str_arg name) (str_arg consensus_hash) (str_arg privatekey)))))"

definition jsonrpc_register ::
  "env \<Rightarrow> state \<Rightarrow> string option \<Rightarrow> string option \<Rightarrow> (exn + json) \<times> state" where
  "jsonrpc_register ev s name privatekey =
     (case get_utxo_provider_client ev s of
        (Inl e, s1) \<Rightarrow> (Inl e, s1)
      | (Inr None, s1) \<Rightarrow> (Inr no_provider, s1)
      | (Inr (Some blockchain_client_inst), s1) \<Rightarrow>
          (case get_state_engine s1 of
             Inl e \<Rightarrow> (Inl e, s1)
           | Inr db \<Rightarrow>
               (if is_name_registered db name
                then (Inr (error_reply ''Name already registered''), s1)
                else try_construct ev s1 blockchain_client_inst
                       (Register_name (str_arg name) (str_arg privatekey)))))"

definition jsonrpc_update ::
  "env \<Rightarrow> state \<Rightarrow> string option \<Rightarrow> string option \<Rightarrow> string option \<Rightarrow> (exn + json) \<times> state" where
  "jsonrpc_update ev s name data_hash privatekey =
     (case get_utxo_provider_client ev s of
        (Inl e, s1) \<Rightarrow> (Inl e, s1)
      | (Inr blockchain_client_inst, s1) \<Rightarrow>
          (case get_state_engine s1 of
             Inl e \<Rightarrow> (Inl e, s1)
           | Inr db \<Rightarrow>
               (let consensus_hash = get_current_consensus db
                in case blockchain_client_inst of
                     None \<Rightarrow> (Inr no_provider, s1)
                   | Some c \<Rightarrow>
                       try_construct ev s1 c
                         (Update_name (str_arg name) (str_arg data_hash) (str_arg consensus_hash)
                            (str_arg privatekey)))))"

definition jsonrpc_transfer ::
  "env \<Rightarrow> state \<Rightarrow> string option \<Rightarrow> string option \<Rightarrow> bool \<Rightarrow> string option \<Rightarrow>
     (exn + json) \<times> state" where
  "jsonrpc_transfer ev s name address keep_data privatekey =
     (case get_utxo_provider_client ev s of
        (Inl e, s1) \<Rightarrow> (Inl e, s1)
      | (Inr blockchain_client_inst, s1) \<Rightarrow>
          (case get_state_engine s1 of
             Inl e \<Rightarrow> (Inl e, s1)
           | Inr db \<Rightarrow>
               (let consensus_hash = get_current_consensus db
                in case blockchain_client_inst of
                     None \<Rightarrow> (Inr no_provider, s1)
                   | Some c \<Rightarrow>
                       try_construct ev s1 c
                         (Transfer_name (str_arg name) (str_arg address) keep_data
                            (str_arg consensus_hash) (str_arg privatekey)))))"

definition jsonrpc_renew ::
  "env \<Rightarrow> state \<Rightarrow> string option \<Rightarrow> string option \<Rightarrow> (exn + json) \<times> state" where
  "jsonrpc_renew ev s name privatekey = jsonrpc_register ev s name privatekey"

definition jsonrpc_revoke ::
  "env \<Rightarrow> state \<Rightarrow> string option \<Rightarrow> string option \<Rightarrow> (exn + json) \<times> state" where
  "jsonrpc_revoke ev s name privatekey =
     (case get_utxo_provider_client ev s of
        (Inl e, s1) \<Rightarrow> (Inl e, s1)
      | (Inr None, s1) \<Rightarrow> (Inr no_provider, s1)
      | (Inr (Some blockchain_client_inst), s1) \<Rightarrow>
          try_construct ev s1 blockchain_client_inst
            (Revoke_name (str_arg name) (str_arg privatekey)))"

definition jsonrpc_namespace_preorder ::
  "env \<Rightarrow> state \<Rightarrow> string option \<Rightarrow> string option \<Rightarrow> (exn + json) \<times> state" where
  "jsonrpc_namespace_preorder ev s namespace_id privatekey =
     (case get_state_engine s of
        Inl e \<Rightarrow> (Inl e, s)
      | Inr db \<Rightarrow>
          (case get_utxo_provider_client ev s of
             (Inl e, s1) \<Rightarrow> (Inl e, s1)
           | (Inr None, s1) \<Rightarrow> (Inr no_provider, s1)
           | (Inr (Some blockchain_client_inst), s1) \<Rightarrow>
               (let consensus_hash = get_current_consensus db
                in try_construct ev s1 blockchain_client_inst
                     (Namespace_preorder (str_arg namespace_id) (str_arg consensus_hash)
                        (str_arg privatekey)))))"

text \<open>
  The numeric arguments of \<open>namespace_reveal\<close> arrive as numbers, on which \<open>int()\<close> is
  the identity; the decay rate, a float in the source, is carried as a rational, and
  no arithmetic is done on it here.
\<close>

definition jsonrpc_namespace_reveal ::
  "env \<Rightarrow> state \<Rightarrow> string option \<Rightarrow> int \<Rightarrow> int \<Rightarrow> rat \<Rightarrow> string option \<Rightarrow>
     (exn + json) \<times> state" where
  "jsonrpc_namespace_reveal ev s namespace_id lifetime base_name_cost cost_decay_rate privatekey =
     (case get_utxo_provider_client ev s of
        (Inl e, s1) \<Rightarrow> (Inl e, s1)
      | (Inr None, s1) \<Rightarrow> (Inr no_provider, s1)
      | (Inr (Some blockchain_client_inst), s1) \<Rightarrow>
          try_construct ev s1 blockchain_client_inst
            (Namespace_reveal (str_arg namespace_id) lifetime base_name_cost cost_decay_rate
               (str_arg privatekey)))"

definition jsonrpc_namespace_ready ::
  "env \<Rightarrow> state \<Rightarrow> string option \<Rightarrow> string option \<Rightarrow> (exn + json) \<times> state" where
  "jsonrpc_namespace_ready ev s namespace_id privatekey =
     (case get_utxo_provider_client ev s of
        (Inl e, s1) \<Rightarrow> (Inl e, s1)
      | (Inr None, s1) \<Rightarrow> (Inr no_provider, s1)
      | (Inr (Some blockchain_client_inst), s1) \<Rightarrow>
          try_construct ev s1 blockchain_client_inst
            (Namespace_ready (str_arg namespace_id) (str_arg privatekey)))"

text \<open>
  A request names one method of \<open>BlockstoredRPC\<close> and gives its arguments; the
  transport calls that method. \<open>Inl\<close> is an exception that leaves the method.
\<close>

datatype request =
    Ping
  | Lookup "string option"
  | Getinfo
  | Preorder "string option" "string option"
  | Register "string option" "string option"
  | Update "string option" "string option" "string option"
  | Transfer "string option" "string option" bool "string option"
  | Renew "string option" "string option"
  | Revoke "string option" "string option"
  | NamespacePreorder "string option" "string option"
  | NamespaceReveal "string option" int int rat "string option"
  | NamespaceReady "string option" "string option"

fun serve :: "env \<Rightarrow> state \<Rightarrow> request \<Rightarrow> (exn + json) \<times> state" where
  "serve ev s Ping = jsonrpc_ping ev s"
| "serve ev s (Lookup name) = jsonrpc_lookup ev s name"
| "serve ev s Getinfo = jsonrpc_getinfo ev s"
| "serve ev s (Preorder name k) = jsonrpc_preorder ev s name k"
| "serve ev s (Register name k) = jsonrpc_register ev s name k"
| "serve ev s (Update name h k) = jsonrpc_update ev s name h k"
| "serve ev s (Transfer name a kd k) = jsonrpc_transfer ev s name a kd k"
| "serve ev s (Renew name k) = jsonrpc_renew ev s name k"
| "serve ev s (Revoke name k) = jsonrpc_revoke ev s name k"
| "serve ev s (NamespacePreorder ns k) = jsonrpc_namespace_preorder ev s ns k"
| "serve ev s (NamespaceReveal ns l b d k) = jsonrpc_namespace_reveal ev s ns l b d k"
| "serve ev s (NamespaceReady ns k) = jsonrpc_namespace_ready ev s ns k"

section \<open>The indexer\<close>

text \<open>
  What the indexer does that can be seen from outside: \<open>time.sleep(seconds)\<close> and
  \<open>virtualchain.sync_virtualchain(bitcoind_opts, last_block_id, engine)\<close>.
\<close>

datatype action = Sleep nat | Sync int

record indexer =
  last_block_id :: int
  actions :: "action list"

text \<open>
  One round of the \<open>while True\<close> loop of \<open>run_indexer\<close>. The round is given what its two
  calls into \<open>virtualchain\<close> answer: the exception \<open>sync_virtualchain\<close> raises, if any,
  and the pair or \<open>None\<close> that \<open>get_index_range\<close> returns, or the exception it raises.
  \<open>freq\<close> is \<open>REINDEX_FREQUENCY\<close> of \<open>lib.config\<close>.
\<close>

type_synonym answer = "exn option \<times> (exn + (int \<times> int) option)"

definition indexer_round :: "nat \<Rightarrow> answer \<Rightarrow> indexer \<Rightarrow> exn option \<times> indexer" where
  "indexer_round freq a ix =
     (let ix1 = ix\<lparr>actions := actions ix @ [Sleep freq, Sync (last_block_id ix)]\<rparr>
      in case fst a of
           Some e \<Rightarrow> (Some e, ix1)
         | None \<Rightarrow>
             (case snd a of
                Inl e \<Rightarrow> (Some e, ix1)
              | Inr None \<Rightarrow> (None, ix1)
              | Inr (Some (first_id, last_id)) \<Rightarrow> (None, ix1\<lparr>last_block_id := last_id\<rparr>)))"

text \<open>
  The loop has no exit but an exception. It is followed along the answers given: when
  they are used up the loop is still running (\<open>None\<close>), in the state returned.
\<close>

fun indexer_loop :: "nat \<Rightarrow> answer list \<Rightarrow> indexer \<Rightarrow> exn option \<times> indexer" where
  "indexer_loop freq [] ix = (None, ix)"
| "indexer_loop freq (a # rest) ix =
     (case indexer_round freq a ix of
        (Some e, ix1) \<Rightarrow> (Some e, ix1)
      | (None, ix1) \<Rightarrow> indexer_loop freq rest ix1)"

definition run_indexer ::
  "env \<Rightarrow> state \<Rightarrow> nat \<Rightarrow> (exn + (int \<times> int) option) \<Rightarrow> answer list \<Rightarrow>
     exn + (exn option \<times> indexer)" where
  "run_indexer ev s freq first rest =
     (case get_bitcoind ev s of
        (b, s1) \<Rightarrow>
          (case first of
             Inl e \<Rightarrow> Inl e
           | Inr None \<Rightarrow> Inl (raised ''TypeError: NoneType object is not iterable'')
           | Inr (Some (first_id, last_id)) \<Rightarrow>
               (case get_state_engine s1 of
                  Inl e \<Rightarrow> Inl e
                | Inr blockstore_state_engine \<Rightarrow>
                    Inr (indexer_loop freq rest \<lparr>last_block_id = last_id, actions = []\<rparr>))))"

section \<open>Stopping the server\<close>

datatype signal = SIGINT | SIGTERM | SIGKILL

text \<open>
  A file as \<open>stop_server\<close> meets it: whether \<open>open(path, "r")\<close> succeeds, whether
  \<open>os.remove(path)\<close> succeeds (the directory may not allow it), and what \<open>read()\<close>
  returns once the file is open.
\<close>

datatype file_node = FileNode (readable: bool) (removable: bool) (content: string)

datatype os_call = Remove string | Kill int signal

text \<open>
  What \<open>os.kill(pid, sig)\<close> does is the operating system's: the signal is sent, or the
  call raises (no such process, not permitted, a pid out of range), or the caller is
  itself among the processes signalled (its own pid, or pid 0 or a negative pid naming
  its group) and dies with them. Which processes a pid names is not modelled.
\<close>

datatype kill_answer = Signalled | KillRaises exn | CallerKilled

text \<open>
  The part of the operating system \<open>stop_server\<close> touches: the files by path, the
  answer of \<open>os.kill\<close>, and the calls made to \<open>os.remove\<close> and \<open>os.kill\<close>, in order.
\<close>

record os_state =
  files :: "string \<rightharpoonup> file_node"
  kill_answers :: "int \<Rightarrow> signal \<Rightarrow> kill_answer"
  os_calls :: "os_call list"

text \<open>How a call ends: it returns, an exception leaves it, or the process is killed.\<close>

datatype outcome = Returned | Raised exn | Killed

text \<open>\<open>os.path.join\<close> of two components.\<close>

definition path_join :: "string \<Rightarrow> string \<Rightarrow> string" where
  "path_join a b =
     (if b \<noteq> [] \<and> hd b = CHR ''/'' then b
      else if a = [] \<or> last a = CHR ''/'' then a @ b
      else a @ ''/'' @ b)"

text \<open>
  \<open>working_dir\<close> is \<open>virtualchain.get_working_dir()\<close> and \<open>chain_name\<close> is
  \<open>get_virtual_chain_name()\<close> of the state engine.
\<close>

definition get_pidfile_path :: "string \<Rightarrow> string \<Rightarrow> string" where
  "get_pidfile_path working_dir chain_name =
     (let pid_filename = chain_name @ ''.pid'' in path_join working_dir pid_filename)"

text \<open>
  \<open>int()\<close> of a byte string, as Python 2 has it: white space around it is dropped, a
  sign may lead, and what is left must be decimal digits, at least one.
\<close>

definition is_space :: "char \<Rightarrow> bool" where
  "is_space c = (c \<in> set [CHR 0x20, CHR 0x09, CHR 0x0A, CHR 0x0B, CHR 0x0C, CHR 0x0D])"

definition is_digit :: "char \<Rightarrow> bool" where
  "is_digit c = (48 \<le> (of_char c :: nat) \<and> (of_char c :: nat) \<le> 57)"

definition strip :: "string \<Rightarrow> string" where
  "strip s = rev (dropWhile is_space (rev (dropWhile is_space s)))"

definition digits_value :: "string \<Rightarrow> nat" where
  "digits_value ds = foldl (\<lambda>acc c. 10 * acc + (of_char c - 48)) 0 ds"

definition unsigned_int :: "string \<Rightarrow> nat option" where
  "unsigned_int ds = (if ds \<noteq> [] \<and> list_all is_digit ds then Some (digits_value ds) else None)"

definition py_int :: "string \<Rightarrow> int option" where
  "py_int s =
     (case strip s of
        [] \<Rightarrow> None
      | c # r \<Rightarrow>
          (if c = CHR ''-'' then map_option (\<lambda>n. - int n) (unsigned_int r)
           else if c = CHR ''+'' then map_option int (unsigned_int r)
           else map_option int (unsigned_int (c # r))))"

definition open_read :: "os_state \<Rightarrow> string \<Rightarrow> exn + string" where
  "open_read os path =
     (case files os path of
        None \<Rightarrow> Inl (raised ''IOError: [Errno 2] No such file or directory'')
      | Some f \<Rightarrow>
          (if readable f then Inr (content f)
           else Inl (raised ''IOError: [Errno 13] Permission denied'')))"

definition os_remove :: "os_state \<Rightarrow> string \<Rightarrow> exn option \<times> os_state" where
  "os_remove os path =
     (let os1 = os\<lparr>os_calls := os_calls os @ [Remove path]\<rparr>
      in case files os path of
           None \<Rightarrow> (Some (raised ''OSError: [Errno 2] No such file or directory''), os1)
         | Some f \<Rightarrow>
             (if removable f then (None, os1\<lparr>files := (files os)(path := None)\<rparr>)
              else (Some (raised ''OSError: [Errno 13] Permission denied''), os1)))"

definition stop_server :: "string \<Rightarrow> string \<Rightarrow> os_state \<Rightarrow> outcome \<times> os_state" where
  "stop_server working_dir chain_name os =
     (let pid_file = get_pidfile_path working_dir chain_name
      in case open_read os pid_file of
           Inl e \<Rightarrow> (Returned, os)
         | Inr pid_data \<Rightarrow>
             (case os_remove os pid_file of
                (Some e, os1) \<Rightarrow> (Raised e, os1)
              | (None, os1) \<Rightarrow>
                  (case py_int pid_data of
                     None \<Rightarrow>
                       (Raised (raised ''ValueError: invalid literal for int() with base 10''), os1)
                   | Some pid \<Rightarrow>
                       (let os2 = os1\<lparr>os_calls := os_calls os1 @ [Kill pid SIGKILL]\<rparr>
                        in case kill_answers os pid SIGKILL of
                             Signalled \<Rightarrow> (Returned, os2)
                           | KillRaises e \<Rightarrow> (Returned, os2)
                           | CallerKilled \<Rightarrow> (Killed, os2)))))"

text \<open>A PID file holding 4242, and an operating system in which process 4242 runs.\<close>

definition sample_os :: "bool \<Rightarrow> bool \<Rightarrow> os_state" where
  "sample_os can_read can_remove =
     \<lparr>files = [''/var/run/blockstore.pid'' \<mapsto> FileNode can_read can_remove ''4242''],
      kill_answers =
        (\<lambda>pid sig. if pid = 4242 then Signalled
                    else KillRaises (raised ''OSError: [Errno 3] No such process'')),
      os_calls = []\<rparr>"

section \<open>Requests by what they need\<close>

text \<open>The commands that ask for the UTXO provider's client: all but the three reads.\<close>

fun needs_client :: "request \<Rightarrow> bool" where
  "needs_client Ping = False"
| "needs_client (Lookup name) = False"
| "needs_client Getinfo = False"
| "needs_client r = True"

section \<open>Sample collaborators and states\<close>

definition sample_chaincom_opts :: opts where
  "sample_chaincom_opts = [(''api_key_id'', OptStr ''key-id''), (''api_key_secret'', OptStr ''key-secret'')]"

definition sample_client :: client where
  "sample_client = ChainComClient (OptStr ''key-id'') (OptStr ''key-secret'')"

definition sample_tx :: json where
  "sample_tx = JObj [(''transaction_hash'', JStr ''5f2a'')]"

text \<open>Every collaborator answers; bitcoind reports 600 blocks.\<close>

definition env_up :: env where
  "env_up =
     \<lparr>connect_bitcoind = (\<lambda>bo. Inr (BitcoindRPC (Inr [(''blocks'', JInt 600)]))),
      configure = Inr ([], sample_chaincom_opts),
      blockchain_opts = None,
      new_ChainComClient = (\<lambda>n i k. None),
      new_BitcoindClient = (\<lambda>n u p h port tls. None),
      construct = (\<lambda>c call. Inr sample_tx)\<rparr>"

text \<open>The chain.com client fails at the first attempt only.\<close>

definition env_transient :: env where
  "env_transient =
     env_up\<lparr>new_ChainComClient :=
              (\<lambda>n i k. if n = 0 then Some (raised ''socket.timeout: timed out'') else None)\<rparr>"

text \<open>No client can be constructed at any attempt.\<close>

definition env_no_provider :: env where
  "env_no_provider =
     env_up\<lparr>new_ChainComClient := (\<lambda>n i k. Some (raised ''socket.error: connection refused''))\<rparr>"

text \<open>bitcoind cannot be reached.\<close>

definition env_no_bitcoind :: env where
  "env_no_bitcoind =
     env_up\<lparr>connect_bitcoind := (\<lambda>bo. Inl (raised ''socket.error: connection refused''))\<rparr>"

text \<open>The constructor rejects its arguments.\<close>

definition env_bad_usage :: env where
  "env_bad_usage = env_up\<lparr>construct := (\<lambda>c call. Inl (raised ''Exception: Invalid name''))\<rparr>"

definition alice_record :: json where
  "alice_record = JObj [(''owner'', JStr ''1AliceAddr''), (''value_hash'', JNull)]"

text \<open>An engine that has committed block 500, with one name registered.\<close>

definition engine_500 :: engine where
  "engine_500 =
     \<lparr>db_names = [''alice.test'' \<mapsto> alice_record],
      db_consensus = Some ''d4a1c6'',
      db_lastblock = 500\<rparr>"

text \<open>An engine that has not yet produced a consensus hash.\<close>

definition engine_fresh :: engine where
  "engine_fresh = \<lparr>db_names = Map.empty, db_consensus = None, db_lastblock = 0\<rparr>"

definition fresh_state :: "engine \<Rightarrow> state" where
  "fresh_state db =
     \<lparr>bitcoind = None, bitcoin_opts = None, chaincom_opts = None, blockchain_client = None,
      db_state = Inr db, attempts = 0, constructed = []\<rparr>"

text \<open>
  bitcoind can be asked: a client is at hand or can be connected, and its \<open>getinfo()\<close>
  returns a dict with a \<open>blocks\<close> entry.
\<close>

definition bitcoind_answers :: "env \<Rightarrow> state \<Rightarrow> bool" where
  "bitcoind_answers ev s =
     (case get_bitcoind ev s of
        (None, s1) \<Rightarrow> False
      | (Some b, s1) \<Rightarrow>
          (case getinfo b of
             Inl e \<Rightarrow> False
           | Inr info \<Rightarrow> (case map_of info ''blocks'' of None \<Rightarrow> False | Some n \<Rightarrow> True)))"

section \<open>What the helpers leave unchanged\<close>

lemma bitcoind_utxo_client_frame:
  assumes "bitcoind_utxo_client ev s = (r, s1)"
  shows "db_state s1 = db_state s \<and> constructed s1 = constructed s \<and>
         bitcoind s1 = bitcoind s \<and> attempts s \<le> attempts s1 \<and>
         attempts s1 \<le> Suc (attempts s)"
  using assms
  by (auto simp: bitcoind_utxo_client_def Let_def split: option.splits sum.splits)

lemma get_utxo_provider_client_frame:
  assumes "get_utxo_provider_client ev s = (r, s1)"
  shows "db_state s1 = db_state s" and "constructed s1 = constructed s"
    and "bitcoind s1 = bitcoind s" and "attempts s1 \<le> attempts s + 2"
  using assms
  by (auto simp: get_utxo_provider_client_def Let_def
           split: option.splits sum.splits prod.splits
           dest!: bitcoind_utxo_client_frame)

lemma get_utxo_provider_client_None:
  assumes "get_utxo_provider_client ev s = (Inr None, s1)"
  shows "attempts s < attempts s1"
  using assms
  by (auto simp: get_utxo_provider_client_def Let_def
           split: option.splits sum.splits prod.splits
           dest!: bitcoind_utxo_client_frame)

lemma get_bitcoind_frame:
  assumes "get_bitcoind ev s = (b, s1)"
  shows "db_state s1 = db_state s" and "constructed s1 = constructed s"
  using assms
  by (auto simp: get_bitcoind_def split: option.splits sum.splits)



lemma get_bitcoind_keeps:
  assumes "get_bitcoind ev s = (b, s1)"
  shows "db_state s1 = db_state s \<and> constructed s1 = constructed s"
  using assms by (simp add: get_bitcoind_frame)



lemmas command_defs =
  jsonrpc_ping_def jsonrpc_lookup_def jsonrpc_getinfo_def jsonrpc_preorder_def
  jsonrpc_register_def jsonrpc_update_def jsonrpc_transfer_def jsonrpc_renew_def
  jsonrpc_revoke_def jsonrpc_namespace_preorder_def jsonrpc_namespace_reveal_def
  jsonrpc_namespace_ready_def


lemmas sample_defs =
  env_up_def env_transient_def env_no_provider_def env_no_bitcoind_def env_bad_usage_def
  engine_500_def engine_fresh_def fresh_state_def sample_chaincom_opts_def sample_client_def
  sample_tx_def alice_record_def

lemmas helper_defs =
  get_utxo_provider_client_def bitcoind_utxo_client_def getitem_def get_state_engine_def
  get_bitcoind_def try_construct_def get_name_def is_name_registered_def
  get_current_consensus_def falsy_def str_arg_def json_of_str_def json_of_record_def
  error_reply_def no_provider_def Let_def

section \<open>Failures of the operation constructor\<close>



section \<open>Commands without a consensus hash\<close>

text \<open>
  The one command that tests the consensus hash. \<open>preorder\<close>, once it has the UTXO
  provider's client and the engine has no consensus hash (\<open>None\<close> or the empty
  string), returns an error reply and calls no constructor.
\<close>

lemma preorder_without_consensus:
  assumes "get_utxo_provider_client ev s = (Inr (Some c), s1)"
      and "db_state s = Inr db"
      and "falsy (get_current_consensus db)"
  shows "jsonrpc_preorder ev s name privatekey =
           (Inr (JObj [(''error'', JStr ''Nameset snapshot not found.'')]), s1) \<and>
         constructed s1 = constructed s"
  using assms get_utxo_provider_client_frame(1,2) [OF assms(1)]
  by (simp add: jsonrpc_preorder_def get_state_engine_def error_reply_def)

text \<open>
  The three other commands that pass the consensus hash on make no such test: they
  call their constructor with \<open>str(None)\<close> and return what it returns.
\<close>

lemma update_without_consensus:
  assumes "get_utxo_provider_client ev s = (Inr (Some c), s1)"
      and "db_state s = Inr db"
      and "get_current_consensus db = None"
  shows "jsonrpc_update ev s name data_hash privatekey =
           try_construct ev s1 c
             (Update_name (str_arg name) (str_arg data_hash) ''None'' (str_arg privatekey))"
    and "jsonrpc_transfer ev s name address keep_data privatekey =
           try_construct ev s1 c
             (Transfer_name (str_arg name) (str_arg address) keep_data ''None'' (str_arg privatekey))"
    and "jsonrpc_namespace_preorder ev s name privatekey =
           try_construct ev s1 c
             (Namespace_preorder (str_arg name) ''None'' (str_arg privatekey))"
  using assms get_utxo_provider_client_frame(1) [OF assms(1)]
  by (simp_all add: jsonrpc_update_def jsonrpc_transfer_def jsonrpc_namespace_preorder_def
        get_state_engine_def str_arg_def)

text \<open>
  C1. The engine has produced no consensus hash and the provider answers. \<open>preorder\<close>
  returns the error reply (its message ends in a full stop) and calls no constructor;
  \<open>update\<close>, \<open>transfer\<close> and \<open>namespace_preorder\<close> each call their constructor, with the
  text \<open>None\<close> for the consensus hash, and return the transaction it built.
\<close>

theorem missing_consensus_constructs:
  "falsy (get_current_consensus engine_fresh) \<and>
   fst (jsonrpc_preorder env_up (fresh_state engine_fresh) (Some ''bob.test'') (Some ''k'')) =
     Inr (JObj [(''error'', JStr ''Nameset snapshot not found.'')]) \<and>
   constructed (snd (jsonrpc_preorder env_up (fresh_state engine_fresh)
                       (Some ''bob.test'') (Some ''k''))) = [] \<and>
   fst (jsonrpc_update env_up (fresh_state engine_fresh) (Some ''bob.test'') (Some ''h'') (Some ''k'')) =
     Inr sample_tx \<and>
   constructed (snd (jsonrpc_update env_up (fresh_state engine_fresh)
                       (Some ''bob.test'') (Some ''h'') (Some ''k''))) =
     [(sample_client, Update_name ''bob.test'' ''h'' ''None'' ''k'')] \<and>
   fst (jsonrpc_transfer env_up (fresh_state engine_fresh)
          (Some ''bob.test'') (Some ''1Bob'') True (Some ''k'')) = Inr sample_tx \<and>
   constructed (snd (jsonrpc_transfer env_up (fresh_state engine_fresh)
                       (Some ''bob.test'') (Some ''1Bob'') True (Some ''k''))) =
     [(sample_client, Transfer_name ''bob.test'' ''1Bob'' True ''None'' ''k'')] \<and>
   fst (jsonrpc_namespace_preorder env_up (fresh_state engine_fresh) (Some ''test'') (Some ''k'')) =
     Inr sample_tx \<and>
   constructed (snd (jsonrpc_namespace_preorder env_up (fresh_state engine_fresh)
                       (Some ''test'') (Some ''k''))) =
     [(sample_client, Namespace_preorder ''test'' ''None'' ''k'')]"
  by (simp add: command_defs helper_defs sample_defs)

section \<open>Looking a name up\<close>

text \<open>A registered name's record is returned as it is stored.\<close>

lemma lookup_returns_record:
  assumes "db_state s = Inr db" and "db_names db n = Some r"
  shows "jsonrpc_lookup ev s (Some n) = (Inr r, s)"
  using assms by (simp add: command_defs helper_defs)

text \<open>
  C2. \<open>lookup\<close> tests its argument, not the record found: for a name that is not
  registered the reply is \<open>None\<close>, not an error.
\<close>

theorem lookup_unregistered_returns_null:
  "is_name_registered engine_500 (Some ''bob.test'') = False \<and>
   fst (jsonrpc_lookup env_up (fresh_state engine_500) (Some ''bob.test'')) = Inr JNull"
  by (simp add: command_defs helper_defs sample_defs)

section \<open>The status command\<close>

text \<open>
  The engine has committed block 500 and bitcoind reports 600 blocks: \<open>getinfo\<close>
  answers 600.
\<close>

theorem getinfo_blocks_counterexample:
  "db_lastblock engine_500 = 500 \<and>
   fst (jsonrpc_getinfo env_up (fresh_state engine_500)) =
     Inr (JObj [(''blocks'', JInt 600), (''consensus'', JStr ''d4a1c6'')])"
  by (simp add: command_defs helper_defs sample_defs)

text \<open>
  C3, as the code has it. When bitcoind answers, the \<open>blocks\<close> field of the reply of
  \<open>getinfo\<close> is the \<open>blocks\<close> entry of bitcoind's own \<open>getinfo()\<close>, and the \<open>consensus\<close>
  field is the engine's current consensus hash.
\<close>

theorem getinfo_reports_bitcoind_blocks:
  assumes "get_bitcoind ev s = (Some b, s1)"
      and "getinfo b = Inr info"
      and "map_of info ''blocks'' = Some n"
      and "db_state s = Inr db"
  shows "jsonrpc_getinfo ev s =
           (Inr (JObj [(''blocks'', n), (''consensus'', json_of_str (get_current_consensus db))]), s1)"
  using assms get_bitcoind_frame(1) [OF assms(1)]
  by (simp add: jsonrpc_getinfo_def get_state_engine_def)

theorem getinfo_reports_bitcoind_blocks_witness:
  "jsonrpc_getinfo env_up (fresh_state engine_500) =
     (Inr (JObj [(''blocks'', JInt 600), (''consensus'', JStr ''d4a1c6'')]),
      (fresh_state engine_500)\<lparr>bitcoind := Some (BitcoindRPC (Inr [(''blocks'', JInt 600)]))\<rparr>)"
proof -
  let ?b = "BitcoindRPC (Inr [(''blocks'', JInt 600)])"
  have h1: "get_bitcoind env_up (fresh_state engine_500) =
              (Some ?b, (fresh_state engine_500)\<lparr>bitcoind := Some ?b\<rparr>)"
    by (simp add: helper_defs sample_defs)
  have h2: "getinfo ?b = Inr [(''blocks'', JInt 600)]" by simp
  have h3: "map_of [(''blocks'', JInt 600)] ''blocks'' = Some (JInt 600)" by simp
  have h4: "db_state (fresh_state engine_500) = Inr engine_500" by (simp add: fresh_state_def)
  from getinfo_reports_bitcoind_blocks [OF h1 h2 h3 h4] show ?thesis
    by (simp add: helper_defs engine_500_def)
qed

section \<open>Renewing a name\<close>

text \<open>
  C4. \<open>renew\<close> is \<open>register\<close>, and \<open>register\<close> refuses a registered name: for a
  registered name the reply of \<open>renew\<close> is an error and no constructor is called.
\<close>

theorem renew_registered_is_rejected:
  "is_name_registered engine_500 (Some ''alice.test'') \<and>
   fst (jsonrpc_renew env_up (fresh_state engine_500) (Some ''alice.test'') (Some ''k'')) =
     Inr (JObj [(''error'', JStr ''Name already registered'')]) \<and>
   constructed (snd (jsonrpc_renew env_up (fresh_state engine_500) (Some ''alice.test'') (Some ''k''))) = []"
  by (simp add: command_defs helper_defs sample_defs)

section \<open>A provider that cannot be reached\<close>

text \<open>
  The chain.com client raises at the first attempt and would answer at the second;
  no bitcoind fallback is configured. \<open>preorder\<close> makes the one attempt and returns
  the failure to its caller.
\<close>

theorem transient_failure_counterexample:
  "new_ChainComClient env_transient 0 (OptStr ''key-id'') (OptStr ''key-secret'') \<noteq> None \<and>
   new_ChainComClient env_transient 1 (OptStr ''key-id'') (OptStr ''key-secret'') = None \<and>
   fst (jsonrpc_preorder env_transient (fresh_state engine_500) (Some ''bob.test'') (Some ''k'')) =
     Inr (JObj [(''error'', JStr ''Failed to connect to blockchain UTXO provider'')]) \<and>
   attempts (snd (jsonrpc_preorder env_transient (fresh_state engine_500)
                    (Some ''bob.test'') (Some ''k''))) = 1"
  by (simp add: command_defs helper_defs sample_defs)

text \<open>
  C5, as the code has it. \<open>get_utxo_provider_client\<close> tries the chain.com client once
  and, if that raises, the bitcoind client once; it does not try again. When it
  returns \<open>None\<close>, every command that asks for the client returns the reply
  \<open>{error: "Failed to connect to blockchain UTXO provider"}\<close>.
\<close>

theorem provider_failure_reaches_caller:
  assumes "get_utxo_provider_client ev s = (Inr None, s1)"
      and "db_state s = Inr db"
      and "needs_client r"
  shows "serve ev s r =
           (Inr (JObj [(''error'', JStr ''Failed to connect to blockchain UTXO provider'')]), s1) \<and>
         attempts s < attempts s1 \<and> attempts s1 \<le> attempts s + 2"
proof -
  have keep: "db_state s1 = Inr db"
    using get_utxo_provider_client_frame(1) [OF assms(1)] assms(2) by simp
  have "serve ev s r = (Inr no_provider, s1)"
    using assms keep
    by (cases r) (simp_all add: command_defs get_state_engine_def)
  then show ?thesis
    using get_utxo_provider_client_None [OF assms(1)]
      get_utxo_provider_client_frame(4) [OF assms(1)]
    by (simp add: no_provider_def error_reply_def)
qed

theorem provider_failure_reaches_caller_witness:
  "serve env_no_provider (fresh_state engine_500) (Revoke (Some ''alice.test'') (Some ''k'')) =
     (Inr (JObj [(''error'', JStr ''Failed to connect to blockchain UTXO provider'')]),
      (fresh_state engine_500)\<lparr>chaincom_opts := Some sample_chaincom_opts, attempts := 1\<rparr>) \<and>
   attempts (fresh_state engine_500) <
     attempts ((fresh_state engine_500)\<lparr>chaincom_opts := Some sample_chaincom_opts, attempts := 1\<rparr>) \<and>
   attempts ((fresh_state engine_500)\<lparr>chaincom_opts := Some sample_chaincom_opts, attempts := 1\<rparr>)
     \<le> attempts (fresh_state engine_500) + 2"
proof -
  let ?s = "fresh_state engine_500"
  have h1: "get_utxo_provider_client env_no_provider ?s =
              (Inr None, ?s\<lparr>chaincom_opts := Some sample_chaincom_opts, attempts := 1\<rparr>)"
    by (simp add: helper_defs sample_defs)
  have h2: "db_state ?s = Inr engine_500" by (simp add: fresh_state_def)
  have h3: "needs_client (Revoke (Some ''alice.test'') (Some ''k''))" by simp
  from provider_failure_reaches_caller [OF h1 h2 h3] show ?thesis .
qed

section \<open>Exceptions that leave a command\<close>

lemma try_construct_replies: "\<exists>reply. fst (try_construct ev s c call) = Inr reply"
  by (simp add: try_construct_def Let_def split: sum.splits)

text \<open>
  What the commands do handle. Every command returns a reply, whatever its arguments,
  whatever the client classes and the operation constructor do, provided that
  \<open>configure()\<close> returns options holding the two chain.com keys, that \<open>get_db_state()\<close>
  returns, and, for \<open>getinfo\<close>, that bitcoind answers.
\<close>

lemma serve_replies:
  assumes "get_utxo_provider_client ev s = (Inr c, s1)"
      and "db_state s = Inr db"
      and "r = Getinfo \<Longrightarrow> bitcoind_answers ev s"
  shows "\<exists>reply. fst (serve ev s r) = Inr reply"
proof -
  have keep: "db_state s1 = Inr db"
    using get_utxo_provider_client_frame(1) [OF assms(1)] assms(2) by simp
  show ?thesis
  proof (cases r)
    case Getinfo
    with assms(3) have "bitcoind_answers ev s" by simp
    then show ?thesis
      using Getinfo assms(2)
      by (auto simp: bitcoind_answers_def jsonrpc_getinfo_def get_state_engine_def
               split: prod.splits option.splits sum.splits dest!: get_bitcoind_keeps)
  qed (use assms(1,2) keep try_construct_replies in
        \<open>auto simp: command_defs get_state_engine_def Let_def split: option.splits\<close>)
qed

text \<open>
  The commands that ask for the UTXO provider's client test it for \<open>None\<close> and answer
  with an error reply. \<open>getinfo\<close> does not test the client \<open>get_bitcoind()\<close> returns:
  when bitcoind is not connected and cannot be, the attribute access on \<open>None\<close> raises.
\<close>

lemma getinfo_without_bitcoind:
  assumes "bitcoind s = None" and "connect_bitcoind ev (bitcoin_opts s) = Inl e"
  shows "jsonrpc_getinfo ev s =
           (Inl (raised ''AttributeError: NoneType object has no attribute getinfo''), s)"
  using assms by (simp add: jsonrpc_getinfo_def get_bitcoind_def)

text \<open>An exception of \<open>get_db_state()\<close> or of \<open>configure()\<close> is not caught either.\<close>

lemma lookup_db_escapes:
  assumes "db_state s = Inl e"
  shows "jsonrpc_lookup ev s name = (Inl e, s)"
  using assms by (simp add: jsonrpc_lookup_def get_state_engine_def)

lemma revoke_configure_escapes:
  assumes "configure ev = Inl e"
  shows "jsonrpc_revoke ev s name privatekey = (Inl e, s)"
  using assms by (simp add: jsonrpc_revoke_def get_utxo_provider_client_def)

text \<open>
  C7. bitcoind cannot be connected: \<open>getinfo\<close> returns no reply; \<open>AttributeError\<close>
  leaves the method. With the UTXO provider out of reach, \<open>revoke\<close> at the same kind
  of failure returns an error reply.
\<close>

theorem getinfo_without_bitcoind_raises:
  "fst (serve env_no_bitcoind (fresh_state engine_500) Getinfo) =
     Inl (raised ''AttributeError: NoneType object has no attribute getinfo'') \<and>
   fst (serve env_no_provider (fresh_state engine_500) (Revoke (Some ''alice.test'') (Some ''k''))) =
     Inr (JObj [(''error'', JStr ''Failed to connect to blockchain UTXO provider'')])"
  by (simp add: command_defs helper_defs sample_defs)

section \<open>Names already registered\<close>

text \<open>
  A registered name, with no provider to reach: \<open>register\<close> reports the provider.
  A registered name, with no consensus hash: \<open>preorder\<close> reports the missing snapshot.
\<close>

theorem registered_name_counterexample:
  "is_name_registered engine_500 (Some ''alice.test'') \<and>
   fst (jsonrpc_register env_no_provider (fresh_state engine_500) (Some ''alice.test'') (Some ''k'')) =
     Inr (JObj [(''error'', JStr ''Failed to connect to blockchain UTXO provider'')]) \<and>
   is_name_registered (engine_fresh\<lparr>db_names := [''alice.test'' \<mapsto> alice_record]\<rparr>)
     (Some ''alice.test'') \<and>
   fst (jsonrpc_preorder env_up
          (fresh_state (engine_fresh\<lparr>db_names := [''alice.test'' \<mapsto> alice_record]\<rparr>))
          (Some ''alice.test'') (Some ''k'')) =
     Inr (JObj [(''error'', JStr ''Nameset snapshot not found.'')])"
  by (simp add: command_defs helper_defs sample_defs)

lemma registered_no_construct:
  assumes "db_state s = Inr db" and "is_name_registered db name"
  shows "constructed (snd (jsonrpc_preorder ev s name k)) = constructed s"
    and "constructed (snd (jsonrpc_register ev s name k)) = constructed s"
proof -
  obtain r s1 where g: "get_utxo_provider_client ev s = (r, s1)" by force
  note keep = get_utxo_provider_client_frame(1,2) [OF g]
  show "constructed (snd (jsonrpc_preorder ev s name k)) = constructed s"
    using assms g keep
    by (simp add: jsonrpc_preorder_def get_state_engine_def Let_def
             split: sum.splits option.splits)
  show "constructed (snd (jsonrpc_register ev s name k)) = constructed s"
    using assms g keep
    by (simp add: jsonrpc_register_def get_state_engine_def Let_def
             split: sum.splits option.splits)
qed

text \<open>
  C9, as the code has it. For a registered name \<open>preorder\<close> and \<open>register\<close> call no
  constructor; \<open>register\<close>, once it has the UTXO provider's client, returns the reply
  \<open>{error: "Name already registered"}\<close>, and so does \<open>preorder\<close> when the engine also
  has a consensus hash.
\<close>

theorem registered_name_is_rejected:
  assumes "db_state s = Inr db"
      and "is_name_registered db name"
  shows "constructed (snd (jsonrpc_register ev s name k)) = constructed s \<and>
         constructed (snd (jsonrpc_preorder ev s name k)) = constructed s \<and>
         (\<forall>c s1. get_utxo_provider_client ev s = (Inr (Some c), s1) \<longrightarrow>
            jsonrpc_register ev s name k =
              (Inr (JObj [(''error'', JStr ''Name already registered'')]), s1) \<and>
            (\<not> falsy (get_current_consensus db) \<longrightarrow>
               jsonrpc_preorder ev s name k =
                 (Inr (JObj [(''error'', JStr ''Name already registered'')]), s1)))"
proof -
  have "jsonrpc_register ev s name k =
          (Inr (JObj [(''error'', JStr ''Name already registered'')]), s1) \<and>
        (\<not> falsy (get_current_consensus db) \<longrightarrow>
           jsonrpc_preorder ev s name k =
             (Inr (JObj [(''error'', JStr ''Name already registered'')]), s1))"
    if g: "get_utxo_provider_client ev s = (Inr (Some c), s1)" for c s1
    using assms g get_utxo_provider_client_frame(1) [OF g]
    by (simp add: jsonrpc_register_def jsonrpc_preorder_def get_state_engine_def error_reply_def)
  then show ?thesis
    using registered_no_construct [OF assms, of ev k] by blast
qed

theorem registered_name_is_rejected_witness:
  "constructed (snd (jsonrpc_register env_up (fresh_state engine_500) (Some ''alice.test'') (Some ''k''))) =
     constructed (fresh_state engine_500) \<and>
   constructed (snd (jsonrpc_preorder env_up (fresh_state engine_500) (Some ''alice.test'') (Some ''k''))) =
     constructed (fresh_state engine_500) \<and>
   jsonrpc_register env_up (fresh_state engine_500) (Some ''alice.test'') (Some ''k'') =
     (Inr (JObj [(''error'', JStr ''Name already registered'')]),
      (fresh_state engine_500)
        \<lparr>chaincom_opts := Some sample_chaincom_opts, blockchain_client := Some sample_client,
         attempts := 1\<rparr>) \<and>
   jsonrpc_preorder env_up (fresh_state engine_500) (Some ''alice.test'') (Some ''k'') =
     (Inr (JObj [(''error'', JStr ''Name already registered'')]),
      (fresh_state engine_500)
        \<lparr>chaincom_opts := Some sample_chaincom_opts, blockchain_client := Some sample_client,
         attempts := 1\<rparr>)"
proof -
  let ?s = "fresh_state engine_500"
  have h1: "db_state ?s = Inr engine_500" by (simp add: fresh_state_def)
  have h2: "is_name_registered engine_500 (Some ''alice.test'')"
    by (simp add: helper_defs engine_500_def)
  have h3: "get_utxo_provider_client env_up ?s =
              (Inr (Some sample_client),
               ?s\<lparr>chaincom_opts := Some sample_chaincom_opts, blockchain_client := Some sample_client,
                   attempts := 1\<rparr>)"
    by (simp add: helper_defs sample_defs)
  have h4: "\<not> falsy (get_current_consensus engine_500)"
    by (simp add: helper_defs engine_500_def)
  from registered_name_is_rejected [OF h1 h2, of env_up "Some ''k''"] h3 h4 show ?thesis by blast
qed

section \<open>The indexer's loop\<close>

lemma indexer_round_actions:
  "actions (snd (indexer_round freq a ix)) = actions ix @ [Sleep freq, Sync (last_block_id ix)]"
  by (simp add: indexer_round_def Let_def split: option.splits sum.splits prod.splits)

lemma indexer_loop_actions_prefix:
  "\<exists>more. actions (snd (indexer_loop freq rest ix)) = actions ix @ more"
proof (induction rest arbitrary: ix)
  case Nil
  then show ?case by simp
next
  case (Cons a rest)
  obtain e ix1 where r: "indexer_round freq a ix = (e, ix1)" by force
  have a1: "actions ix1 = actions ix @ [Sleep freq, Sync (last_block_id ix)]"
    using indexer_round_actions [of freq a ix] r by simp
  show ?case
  proof (cases e)
    case None
    from Cons.IH [of ix1] obtain more where
      "actions (snd (indexer_loop freq rest ix1)) = actions ix1 @ more" by blast
    with r None a1 show ?thesis by simp
  next
    case (Some x)
    with r a1 show ?thesis by simp
  qed
qed

text \<open>
  Inside the loop the answer \<open>None\<close> is waited out: the round leaves \<open>last_block_id\<close>
  as it was, and the next round sleeps \<open>REINDEX_FREQUENCY\<close> seconds and calls
  \<open>sync_virtualchain\<close> with that same block id.
\<close>

lemma indexer_retries_same_block:
  "indexer_round freq (None, Inr None) ix =
     (None, ix\<lparr>actions := actions ix @ [Sleep freq, Sync (last_block_id ix)]\<rparr>) \<and>
   last_block_id (snd (indexer_round freq (None, Inr None) ix)) = last_block_id ix \<and>
   take (length (actions ix) + 4)
        (actions (snd (indexer_loop freq ((None, Inr None) # a # rest) ix))) =
     actions ix @ [Sleep freq, Sync (last_block_id ix), Sleep freq, Sync (last_block_id ix)]"
proof -
  let ?ix1 = "ix\<lparr>actions := actions ix @ [Sleep freq, Sync (last_block_id ix)]\<rparr>"
  have r1: "indexer_round freq (None, Inr None) ix = (None, ?ix1)"
    by (simp add: indexer_round_def Let_def)
  obtain e ix2 where r2: "indexer_round freq a ?ix1 = (e, ix2)" by force
  have a2: "actions ix2 =
              actions ix @ [Sleep freq, Sync (last_block_id ix), Sleep freq, Sync (last_block_id ix)]"
    using indexer_round_actions [of freq a ?ix1] r2 by simp
  have "\<exists>more. actions (snd (indexer_loop freq ((None, Inr None) # a # rest) ix)) =
          actions ix2 @ more"
  proof (cases e)
    case None
    with r1 r2 indexer_loop_actions_prefix [of freq rest ix2] show ?thesis by simp
  next
    case (Some x)
    with r1 r2 show ?thesis by simp
  qed
  then obtain more where
    "actions (snd (indexer_loop freq ((None, Inr None) # a # rest) ix)) = actions ix2 @ more"
    by blast
  with a2 have "take (length (actions ix) + 4)
        (actions (snd (indexer_loop freq ((None, Inr None) # a # rest) ix))) =
     actions ix @ [Sleep freq, Sync (last_block_id ix), Sleep freq, Sync (last_block_id ix)]"
    by simp
  with r1 show ?thesis by simp
qed

text \<open>
  \<open>run_indexer\<close> enters the loop with the block id of its first query, when that query
  has an answer and the engine is at hand.
\<close>

lemma run_indexer_enters_loop:
  assumes "db_state s = Inr db"
  shows "run_indexer ev s freq (Inr (Some (first_id, last_id))) rest =
           Inr (indexer_loop freq rest \<lparr>last_block_id = last_id, actions = []\<rparr>)"
  using assms
  by (auto simp: run_indexer_def get_state_engine_def split: prod.splits
           dest!: get_bitcoind_keeps)

text \<open>The first query, before the loop, is not tested for \<open>None\<close>: unpacking it raises.\<close>

lemma run_indexer_first_none:
  "run_indexer ev s freq (Inr None) rest = Inl (raised ''TypeError: NoneType object is not iterable'')"
  by (simp add: run_indexer_def split: prod.splits)

text \<open>
  C8. The block source has no index range when the indexer starts: \<open>run_indexer\<close>
  raises \<open>TypeError\<close>, having neither slept nor retried, whatever the block source
  would answer next. The same answer one query later, inside the loop, is waited out:
  two sleeps of \<open>REINDEX_FREQUENCY\<close>, each followed by a sync up to block 104.
\<close>

theorem run_indexer_unavailable_at_start:
  "run_indexer env_up (fresh_state engine_500) 30 (Inr None)
     [(None, Inr (Some (100, 104))), (None, Inr (Some (100, 105)))] =
     Inl (raised ''TypeError: NoneType object is not iterable'') \<and>
   run_indexer env_up (fresh_state engine_500) 30 (Inr (Some (100, 104)))
     [(None, Inr None), (None, Inr (Some (100, 105)))] =
     Inr (None, \<lparr>last_block_id = 105,
                 actions = [Sleep 30, Sync 104, Sleep 30, Sync 104]\<rparr>)"
  by (simp add: run_indexer_def indexer_round_def get_bitcoind_def get_state_engine_def
        Let_def sample_defs)

section \<open>What stopping the server does\<close>

lemma py_int_4242: "py_int ''4242'' = Some 4242"
  by code_simp

lemma pidfile_path_sample: "get_pidfile_path ''/var/run'' ''blockstore'' = ''/var/run/blockstore.pid''"
  by (simp add: get_pidfile_path_def path_join_def)

text \<open>A readable file that holds no integer: \<open>int()\<close> raises after the file is removed.\<close>

lemma stop_server_bad_pid:
  "files os (get_pidfile_path wd cn) = Some (FileNode True True data) \<Longrightarrow> py_int data = None \<Longrightarrow>
     fst (stop_server wd cn os) =
       Raised (raised ''ValueError: invalid literal for int() with base 10'') \<and>
     os_calls (snd (stop_server wd cn os)) = os_calls os @ [Remove (get_pidfile_path wd cn)]"
  by (simp add: stop_server_def open_read_def os_remove_def Let_def)

text \<open>
  The PID file can be read and not removed: the exception of \<open>os.remove\<close> leaves
  \<open>stop_server\<close>, no signal is sent and the file is still there.
\<close>

theorem stop_server_unremovable_counterexample:
  "fst (stop_server ''/var/run'' ''blockstore'' (sample_os True False)) =
     Raised (raised ''OSError: [Errno 13] Permission denied'') \<and>
   os_calls (snd (stop_server ''/var/run'' ''blockstore'' (sample_os True False))) =
     [Remove ''/var/run/blockstore.pid''] \<and>
   files (snd (stop_server ''/var/run'' ''blockstore'' (sample_os True False)))
     ''/var/run/blockstore.pid'' = Some (FileNode True False ''4242'')"
  by (simp add: stop_server_def open_read_def os_remove_def Let_def sample_os_def
        pidfile_path_sample)

text \<open>
  C10, as the code has it. When the PID file can be opened and removed and holds an
  integer, \<open>stop_server\<close> removes the file, then calls \<open>os.kill\<close> with that integer and
  \<open>SIGKILL\<close>, and makes no other call; no exception leaves it, whatever \<open>os.kill\<close>
  answers, and it returns unless the signal takes the caller too. When the file is
  missing or cannot be opened, \<open>stop_server\<close> returns and has done nothing.
\<close>

theorem stop_server_kills_recorded_pid:
  "(files os (get_pidfile_path wd cn) = Some (FileNode True True data) \<and> py_int data = Some pid \<longrightarrow>
      os_calls (snd (stop_server wd cn os)) =
        os_calls os @ [Remove (get_pidfile_path wd cn), Kill pid SIGKILL] \<and>
      files (snd (stop_server wd cn os)) = (files os)(get_pidfile_path wd cn := None) \<and>
      fst (stop_server wd cn os) =
        (if kill_answers os pid SIGKILL = CallerKilled then Killed else Returned)) \<and>
   (files os (get_pidfile_path wd cn) = None \<or>
    (\<exists>rm d. files os (get_pidfile_path wd cn) = Some (FileNode False rm d)) \<longrightarrow>
      stop_server wd cn os = (Returned, os))"
  by (auto simp: stop_server_def open_read_def os_remove_def Let_def split: kill_answer.splits)

theorem stop_server_kills_recorded_pid_witness:
  "os_calls (snd (stop_server ''/var/run'' ''blockstore'' (sample_os True True))) =
     [Remove ''/var/run/blockstore.pid'', Kill 4242 SIGKILL] \<and>
   files (snd (stop_server ''/var/run'' ''blockstore'' (sample_os True True)))
     ''/var/run/blockstore.pid'' = None \<and>
   fst (stop_server ''/var/run'' ''blockstore'' (sample_os True True)) = Returned \<and>
   stop_server ''/var/run'' ''blockstore'' ((sample_os True True)\<lparr>files := Map.empty\<rparr>) =
     (Returned, (sample_os True True)\<lparr>files := Map.empty\<rparr>) \<and>
   stop_server ''/var/run'' ''blockstore'' (sample_os False True) = (Returned, sample_os False True)"
proof -
  let ?wd = "''/var/run''" and ?cn = "''blockstore''"
  have a: "files (sample_os True True) (get_pidfile_path ?wd ?cn) =
             Some (FileNode True True ''4242'') \<and> py_int ''4242'' = Some 4242"
    by (simp add: pidfile_path_sample py_int_4242 sample_os_def)
  have b: "files ((sample_os True True)\<lparr>files := Map.empty\<rparr>) (get_pidfile_path ?wd ?cn) = None"
    by simp
  have c: "\<exists>rm d. files (sample_os False True) (get_pidfile_path ?wd ?cn) =
             Some (FileNode False rm d)"
    by (auto simp: pidfile_path_sample sample_os_def)
  have k: "kill_answers (sample_os True True) 4242 SIGKILL = Signalled"
    by (simp add: sample_os_def)
  from stop_server_kills_recorded_pid [of "sample_os True True" ?wd ?cn "''4242''" 4242]
       stop_server_kills_recorded_pid
         [of "(sample_os True True)\<lparr>files := Map.empty\<rparr>" ?wd ?cn "[]" 0]
       stop_server_kills_recorded_pid [of "sample_os False True" ?wd ?cn "[]" 0]
       a b c k
  show ?thesis by (simp add: pidfile_path_sample sample_os_def)
qed

end
